theory Spec2Isabelle
  imports Main "HOL-Library.Sublist"
begin

section \<open>Data model of totp.py\<close>

text \<open>
  The program is one command per process: \<open>main\<close> parses the arguments, loads the
  services file, talks to the system keyring, and leaves through \<open>exit(n)\<close>, through the
  end of \<open>main\<close>, or through an exception nobody catches. The keyring and the services
  file are the only state that survives the process; they are passed in and returned.

  Strings are byte lists. Every separator and prefix the program looks for is ASCII, and
  an ASCII byte never occurs inside a multi-byte UTF-8 sequence, so searching bytes finds
  what Python finds on code points.
\<close>

datatype action = Generate | Add | Update | Remove | List_services

text \<open>The \<open>argparse\<close> namespace: \<open>service\<close> is \<open>None\<close> when \<open>-s\<close> is not given.\<close>

record args =
  action :: action
  service :: "string option"
  copy :: bool
  debug :: bool

text \<open>
  What lives outside the process: the keyring (\<open>keyring.get_password(s, s)\<close> is
  \<open>store w s\<close>, \<open>None\<close> for no entry), the JSON array in
  \<open>~/.local/share/totp/services\<close> (an absent file is the empty list), and the clipboard.
\<close>

record world =
  store :: "string \<Rightarrow> string option"
  index :: "string list"
  clipboard :: "string option"

text \<open>
  What the process reads while it runs: the line typed at the \<open>getpass\<close> prompt, the
  \<open>oathtool\<close> program (\<open>None\<close> when it exits non-zero, so that
  \<open>subprocess.check_output\<close> raises), and whether \<open>import pyclip\<close> succeeded.
\<close>

record env =
  entered :: string
  oathtool :: "string \<Rightarrow> string option"
  pyclip_loaded :: bool

datatype py_error = IndexError | ValueError | CalledProcessError

text \<open>One line of output: \<open>logger.info\<close>, \<open>logger.error\<close> or \<open>print\<close>.\<close>

datatype msg = Info string | Error string | Print string

text \<open>
  How the process ends: \<open>exit(n)\<close>, falling off the end of \<open>main\<close>, or an uncaught
  exception (the interpreter prints a traceback and the status is 1).
\<close>

datatype outcome = Exit nat | Returned | Uncaught py_error

fun exit_status :: "outcome \<Rightarrow> nat" where
  "exit_status (Exit n) = n"
| "exit_status Returned = 0"
| "exit_status (Uncaught e) = 1"

type_synonym result = "outcome \<times> msg list \<times> world"

section \<open>Python string operations\<close>

text \<open>\<open>s.find(sep)\<close>: the lowest index where \<open>sep\<close> occurs, \<open>None\<close> for \<open>-1\<close>.\<close>

fun find_str :: "string \<Rightarrow> string \<Rightarrow> nat option" where
  "find_str sep [] = (if sep = [] then Some 0 else None)"
| "find_str sep (c # cs) =
     (if prefix sep (c # cs) then Some 0 else map_option Suc (find_str sep cs))"

text \<open>
  \<open>s.split(sep)\<close> for a non-empty \<open>sep\<close>: cut at each occurrence, left to right, the
  search resuming after the separator just found.
\<close>

function split_str :: "string \<Rightarrow> string \<Rightarrow> string list" where
  "split_str sep s =
     (if sep = [] then [s]
      else case find_str sep s of
             None \<Rightarrow> [s]
           | Some i \<Rightarrow> take i s # split_str sep (drop (i + length sep) s))"
  by pat_completeness auto
termination
proof (relation "measure (\<lambda>(sep, s). length s)")
  show "wf (measure (\<lambda>(sep, s). length s))" by simp
next
  fix sep s :: string and i :: nat
  assume ne: "sep \<noteq> []" and found: "find_str sep s = Some i"
  have "s \<noteq> []" using ne found by (cases s) auto
  moreover have "0 < i + length sep" using ne by simp
  ultimately have "length (drop (i + length sep) s) < length s" by simp
  then show "((sep, drop (i + length sep) s), (sep, s)) \<in> measure (\<lambda>(sep, s). length s)"
    by simp
qed

text \<open>\<open>s.split(sep)\<close> itself: an empty separator raises \<open>ValueError\<close>.\<close>

definition py_split :: "string \<Rightarrow> string \<Rightarrow> py_error + string list" where
  "py_split s sep = (if sep = [] then Inl ValueError else Inr (split_str sep s))"

text \<open>\<open>xs[i]\<close> for \<open>i \<ge> 0\<close>: \<open>IndexError\<close> out of range.\<close>

definition item :: "'a list \<Rightarrow> nat \<Rightarrow> py_error + 'a" where
  "item xs i = (if i < length xs then Inr (xs ! i) else Inl IndexError)"

text \<open>\<open>sep.join(xs)\<close>.\<close>

fun join :: "string \<Rightarrow> string list \<Rightarrow> string" where
  "join sep [] = []"
| "join sep [x] = x"
| "join sep (x # y # ys) = x @ sep @ join sep (y # ys)"

text \<open>Truthiness of \<open>key\<close> in \<open>if key:\<close>: \<open>None\<close> and the empty string are false.\<close>

fun truthy :: "string option \<Rightarrow> bool" where
  "truthy None = False"
| "truthy (Some k) = (k \<noteq> [])"

section \<open>KeyManager and Services\<close>

definition get_key :: "string \<Rightarrow> world \<Rightarrow> string option" where
  "get_key svc w = store w svc"

definition set_key :: "string \<Rightarrow> string \<Rightarrow> world \<Rightarrow> world" where
  "set_key svc key w = w\<lparr>store := (store w)(svc \<mapsto> key)\<rparr>"

definition get_services :: "world \<Rightarrow> string list" where
  "get_services w = index w"

text \<open>\<open>add_service\<close>: \<open>append\<close>, then \<open>save\<close> rewrites the whole file.\<close>

definition add_service :: "string \<Rightarrow> world \<Rightarrow> world" where
  "add_service svc w = w\<lparr>index := index w @ [svc]\<rparr>"

text \<open>
  \<open>remove_service\<close>: \<open>list.remove\<close> deletes the first equal element and raises
  \<open>ValueError\<close> when there is none; then \<open>save\<close>.
\<close>

definition remove_service :: "string \<Rightarrow> world \<Rightarrow> py_error + world" where
  "remove_service svc w =
     (if svc \<in> set (index w) then Inr (w\<lparr>index := remove1 svc (index w)\<rparr>)
      else Inl ValueError)"

section \<open>main\<close>

text \<open>
  The line \<open>secret = secret.split("secret=")[1].split("&")[0]\<close>, with each exception
  it can raise.
\<close>

definition extract_secret :: "string \<Rightarrow> py_error + string" where
  "extract_secret secret =
     (case py_split secret ''secret='' of
        Inl e \<Rightarrow> Inl e
      | Inr parts \<Rightarrow>
          (case item parts 1 of
             Inl e \<Rightarrow> Inl e
           | Inr p \<Rightarrow>
               (case py_split p ''&'' of
                  Inl e \<Rightarrow> Inl e
                | Inr qs \<Rightarrow> item qs 0)))"

text \<open>
  The prompt and the two branches after it, the same lines in \<open>add\<close> and in
  \<open>update\<close>: \<open>Inl\<close> is how the process ends there, \<open>Inr\<close> is the value of
  \<open>secret\<close> the command goes on with.
\<close>

definition read_secret :: "env \<Rightarrow> (outcome \<times> msg list) + string" where
  "read_secret e =
     (let secret = entered e in
      if secret = [] then Inl (Exit 1, [Error ''Secret or URL is required''])
      else if prefix ''otpauth://'' secret then
        (case extract_secret secret of
           Inl err \<Rightarrow> Inl (Uncaught err, [])
         | Inr s \<Rightarrow> Inr s)
      else Inr secret)"

definition main_generate :: "env \<Rightarrow> args \<Rightarrow> string \<Rightarrow> world \<Rightarrow> result" where
  "main_generate e a svc w =
     (case get_key svc w of
        None \<Rightarrow> (Exit 1, [Print ''Key not found''], w)
      | Some key \<Rightarrow>
          (case oathtool e key of
             None \<Rightarrow> (Uncaught CalledProcessError, [], w)
           | Some totp \<Rightarrow>
               (let out = [Info (''TOTP code for '' @ svc @ '': '' @ totp)] in
                if pyclip_loaded e \<and> copy a then
                  (Returned, out @ [Info ''Code copied to clipboard''],
                   w\<lparr>clipboard := Some totp\<rparr>)
                else (Returned, out, w))))"

definition main_add :: "env \<Rightarrow> string \<Rightarrow> world \<Rightarrow> result" where
  "main_add e svc w =
     (case read_secret e of
        Inl (oc, out) \<Rightarrow> (oc, out, w)
      | Inr secret \<Rightarrow>
          (if truthy (get_key svc w) then
             (Exit 1, [Error ''Service already exists, use update instead''], w)
           else
             (let w1 = set_key svc secret w;
                  w2 = (if svc \<notin> set (get_services w1) then add_service svc w1 else w1)
              in (Returned, [Info (''Key added for service '' @ svc)], w2))))"

definition main_update :: "env \<Rightarrow> string \<Rightarrow> world \<Rightarrow> result" where
  "main_update e svc w =
     (case read_secret e of
        Inl (oc, out) \<Rightarrow> (oc, out, w)
      | Inr secret \<Rightarrow>
          (if get_key svc w = None then
             (Exit 1, [Error ''Service not found''], w)
           else
             (let w1 = set_key svc secret w;
                  w2 = (if svc \<notin> set (get_services w1) then add_service svc w1 else w1)
              in (Returned, [Info (''Key updated for service '' @ svc)], w2))))"

definition main_remove :: "string \<Rightarrow> world \<Rightarrow> result" where
  "main_remove svc w =
     (if get_key svc w = None then
        (Exit 1, [Error ''Service not found''], w)
      else
        (let w1 = set_key svc [] w in
         if svc \<in> set (get_services w1) then
           (case remove_service svc w1 of
              Inl err \<Rightarrow> (Uncaught err, [], w1)
            | Inr w2 \<Rightarrow> (Returned, [Info (''Key removed for service '' @ svc)], w2))
         else (Returned, [Info (''Key removed for service '' @ svc)], w1)))"

definition main :: "env \<Rightarrow> args \<Rightarrow> world \<Rightarrow> result" where
  "main e a w =
     (if action a = List_services then
        (Exit 0, [Info (''Services: '' @ join '', '' (get_services w))], w)
      else
        (case service a of
           None \<Rightarrow> (Exit 1, [Error ''Service name is required''], w)
         | Some svc \<Rightarrow>
             (case action a of
                Generate \<Rightarrow> main_generate e a svc w
              | Add \<Rightarrow> main_add e svc w
              | Update \<Rightarrow> main_update e svc w
              | Remove \<Rightarrow> main_remove svc w
              | List_services \<Rightarrow> (Returned, [], w))))"

text \<open>The keyring and the services file a run leaves behind.\<close>

definition after :: "result \<Rightarrow> world" where
  "after r = snd (snd r)"

section \<open>The provisioning URI as the specification words it\<close>

text \<open>
  The specification describes the secret of an \<open>otpauth://\<close> URI as the substring
  between \<open>secret=\<close> and the next \<open>&\<close>, or the end of the string. \<open>after_first sep s\<close>
  is the text that follows the first occurrence of \<open>sep\<close> in \<open>s\<close> (\<open>None\<close> when there is
  none), and \<open>spec_secret\<close> reads that text up to its first \<open>&\<close>. Neither is code of the
  program: they are what \<open>extract_secret\<close> is compared with.
\<close>

fun after_first :: "string \<Rightarrow> string \<Rightarrow> string option" where
  "after_first sep [] = (if sep = [] then Some [] else None)"
| "after_first sep (c # cs) =
     (if prefix sep (c # cs) then Some (drop (length sep) (c # cs)) else after_first sep cs)"

definition spec_secret :: "string \<Rightarrow> string option" where
  "spec_secret s = map_option (takeWhile (\<lambda>c. c \<noteq> CHR ''&'')) (after_first ''secret='' s)"

text \<open>
  \<open>upto_first sep s\<close> is the text before the first occurrence of \<open>sep\<close>, all of \<open>s\<close> when
  there is none: the first element of \<open>s.split(sep)\<close>.
\<close>

fun upto_first :: "string \<Rightarrow> string \<Rightarrow> string" where
  "upto_first sep [] = []"
| "upto_first sep (c # cs) = (if prefix sep (c # cs) then [] else c # upto_first sep cs)"

section \<open>Concrete runs\<close>

text \<open>
  Inputs for the runs below: a user who types \<open>s\<close> at the prompt on a machine where
  \<open>oathtool\<close> fails and \<open>pyclip\<close> is not installed, one where \<open>oathtool\<close> answers
  with a fixed code, a command line \<open>totp ACTION -s SVC\<close>, and a keyring and services
  file with the given contents.
\<close>

definition typed :: "string \<Rightarrow> env" where
  "typed s = \<lparr>entered = s, oathtool = (\<lambda>key. None), pyclip_loaded = False\<rparr>"

definition answering :: "string \<Rightarrow> env" where
  "answering code = \<lparr>entered = [], oathtool = (\<lambda>key. Some code), pyclip_loaded = False\<rparr>"

definition cmd :: "action \<Rightarrow> string \<Rightarrow> args" where
  "cmd act svc = \<lparr>action = act, service = Some svc, copy = False, debug = False\<rparr>"

definition holding :: "(string \<times> string) list \<Rightarrow> string list \<Rightarrow> world" where
  "holding kvs names = \<lparr>store = map_of kvs, index = names, clipboard = None\<rparr>"

section \<open>Facts about the string operations\<close>

lemma find_str_None_iff: "sep \<noteq> [] \<Longrightarrow> (find_str sep s = None) = (\<not> sublist sep s)"
  by (induction s) (auto simp: sublist_Cons_right)

lemma find_str_after_first:
  "after_first sep s = map_option (\<lambda>i. drop (i + length sep) s) (find_str sep s)"
  by (induction s) (auto simp: option.map_comp comp_def)

lemma find_str_upto_first:
  "sep \<noteq> [] \<Longrightarrow> upto_first sep s = (case find_str sep s of None \<Rightarrow> s | Some i \<Rightarrow> take i s)"
  by (induction s) (auto split: option.splits)

lemma split_str_unfold:
  "sep \<noteq> [] \<Longrightarrow> split_str sep s =
     (case find_str sep s of None \<Rightarrow> [s]
      | Some i \<Rightarrow> take i s # split_str sep (drop (i + length sep) s))"
  by (subst split_str.simps) simp

lemma split_str_hd: "sep \<noteq> [] \<Longrightarrow> \<exists>ps. split_str sep s = upto_first sep s # ps"
  by (simp add: split_str_unfold find_str_upto_first split: option.splits)

lemma upto_first_single: "upto_first [c] s = takeWhile (\<lambda>x. x \<noteq> c) s"
  by (induction s) auto

lemma split_str_found:
  assumes "sep \<noteq> []" and "after_first sep s = Some r"
  shows "\<exists>ps. split_str sep s = upto_first sep s # upto_first sep r # ps"
proof -
  obtain i where i: "find_str sep s = Some i" and r: "r = drop (i + length sep) s"
    using assms(2) by (auto simp: find_str_after_first)
  obtain ps where "split_str sep r = upto_first sep r # ps"
    using split_str_hd[OF assms(1), of r] by auto
  then have "split_str sep s = upto_first sep s # upto_first sep r # ps"
    using i r assms(1) by (simp add: split_str_unfold[of sep s] find_str_upto_first)
  then show ?thesis by blast
qed

lemma extract_secret_found:
  assumes "after_first ''secret='' s = Some r"
  shows "extract_secret s = Inr (takeWhile (\<lambda>c. c \<noteq> CHR ''&'') (upto_first ''secret='' r))"
proof -
  obtain ps where ps: "split_str ''secret='' s = upto_first ''secret='' s # upto_first ''secret='' r # ps"
    using split_str_found[OF _ assms] by auto
  obtain qs where qs: "split_str ''&'' (upto_first ''secret='' r) = upto_first ''&'' (upto_first ''secret='' r) # qs"
    using split_str_hd[of "''&''" "upto_first ''secret='' r"] by auto
  show ?thesis
    using ps qs by (simp add: extract_secret_def py_split_def item_def upto_first_single)
qed

lemma extract_secret_missing:
  assumes "after_first ''secret='' s = None"
  shows "extract_secret s = Inl IndexError"
proof -
  have "find_str ''secret='' s = None"
    using assms by (simp add: find_str_after_first)
  then have "split_str ''secret='' s = [s]"
    by (simp add: split_str_unfold[of "''secret=''" s])
  then show ?thesis
    by (simp add: extract_secret_def py_split_def item_def)
qed

lemma after_first_None_iff: "sep \<noteq> [] \<Longrightarrow> (after_first sep s = None) = (\<not> sublist sep s)"
  by (simp add: find_str_after_first find_str_None_iff)

lemma prefix_takeWhile: "prefix p xs \<Longrightarrow> \<forall>c\<in>set p. P c \<Longrightarrow> prefix p (takeWhile P xs)"
proof (induction p arbitrary: xs)
  case Nil
  then show ?case by simp
next
  case (Cons a p)
  then show ?case by (cases xs) auto
qed

lemma takeWhile_upto_first:
  assumes "CHR ''&'' \<notin> set sep" "\<not> sublist sep (takeWhile (\<lambda>c. c \<noteq> CHR ''&'') r)"
  shows "takeWhile (\<lambda>c. c \<noteq> CHR ''&'') (upto_first sep r) = takeWhile (\<lambda>c. c \<noteq> CHR ''&'') r"
  using assms
proof (induction r)
  case Nil
  then show ?case by simp
next
  case (Cons c cs)
  show ?case
  proof (cases "prefix sep (c # cs)")
    case True
    then have "prefix sep (takeWhile (\<lambda>c. c \<noteq> CHR ''&'') (c # cs))"
      using Cons.prems(1) by (intro prefix_takeWhile) auto
    then have "sublist sep (takeWhile (\<lambda>c. c \<noteq> CHR ''&'') (c # cs))"
      by (rule prefix_imp_sublist)
    with Cons.prems(2) show ?thesis by simp
  next
    case False
    then show ?thesis
      using Cons by (auto simp: sublist_Cons_right)
  qed
qed

lemma spec_secret_defined: "spec_secret s \<noteq> None \<longleftrightarrow> sublist ''secret='' s"
  using after_first_None_iff[of "''secret=''" s] by (simp add: spec_secret_def)

lemma extract_secret_spec:
  assumes "spec_secret s = Some k" and "\<not> sublist ''secret='' k"
  shows "extract_secret s = Inr k"
proof -
  obtain r where r: "after_first ''secret='' s = Some r"
    and k: "k = takeWhile (\<lambda>c. c \<noteq> CHR ''&'') r"
    using assms(1) by (auto simp: spec_secret_def)
  have "takeWhile (\<lambda>c. c \<noteq> CHR ''&'') (upto_first ''secret='' r) = k"
    unfolding k using assms(2) unfolding k by (intro takeWhile_upto_first) simp_all
  then show ?thesis
    using extract_secret_found[OF r] by simp
qed

section \<open>Facts about the commands\<close>

lemmas run_defs =
  main_def main_generate_def main_add_def main_update_def main_remove_def
  get_key_def set_key_def get_services_def add_service_def remove_service_def after_def

lemmas fixture_defs = typed_def answering_def cmd_def holding_def

lemma read_secret_Inr_iff:
  "read_secret e = Inr k \<longleftrightarrow>
     entered e \<noteq> [] \<and>
     (if prefix ''otpauth://'' (entered e) then extract_secret (entered e) = Inr k
      else k = entered e)"
  by (auto simp: read_secret_def Let_def split: sum.splits)

lemma extract_secret_Inr_iff: "(\<exists>k. extract_secret s = Inr k) \<longleftrightarrow> sublist ''secret='' s"
proof (cases "after_first ''secret='' s")
  case None
  then show ?thesis
    using extract_secret_missing[OF None] after_first_None_iff[of "''secret=''" s] by simp
next
  case (Some r)
  then show ?thesis
    using extract_secret_found[OF Some] after_first_None_iff[of "''secret=''" s] by simp
qed

lemma read_secret_accepts:
  assumes "entered e \<noteq> []"
    and "prefix ''otpauth://'' (entered e) \<longrightarrow> sublist ''secret='' (entered e)"
  shows "\<exists>k. read_secret e = Inr k"
  using assms extract_secret_Inr_iff[of "entered e"]
  by (auto simp: read_secret_Inr_iff)

lemma read_secret_rejects:
  "read_secret e = Inl (oc, out) \<Longrightarrow> exit_status oc = 1"
  by (auto simp: read_secret_def Let_def split: sum.splits if_splits)

lemma remove1_last_occurrence: "count_list xs x \<le> 1 \<Longrightarrow> x \<notin> set (remove1 x xs)"
  by (induction xs) (auto simp: count_list_0_iff)

lemma count_list_append_new: "x \<notin> set xs \<Longrightarrow> count_list (xs @ [x]) x = 1"
  by (simp add: count_list_0_iff)

lemma count_list_present: "x \<in> set xs \<Longrightarrow> count_list xs x \<le> 1 \<Longrightarrow> count_list xs x = 1"
  using count_list_0_iff[of xs x] by arith

lemma read_secret_not_Returned: "read_secret e \<noteq> Inl (Returned, out)"
  using read_secret_rejects[of e Returned out] by auto

section \<open>The commands\<close>

subsection \<open>generate\<close>

text \<open>
  Claim C1. For a service whose keyring entry is the empty string, \<open>generate\<close> should
  print "Key not found" and fail. The program tests \<open>key is None\<close>, which the empty
  string passes: it runs \<open>oathtool\<close> on the empty key and either dies on the uncaught
  \<open>CalledProcessError\<close> or logs whatever code \<open>oathtool\<close> printed. "Key not found" is
  not printed in either case.
\<close>

theorem generate_on_empty_entry:
  assumes "store w svc = Some []" and "action a = Generate" and "service a = Some svc"
  shows "fst (snd (main e a w)) \<noteq> [Print ''Key not found'']
     \<and> (oathtool e [] = None \<longrightarrow> main e a w = (Uncaught CalledProcessError, [], w))
     \<and> (oathtool e [] = Some code \<longrightarrow>
          fst (main e a w) = Returned
          \<and> hd (fst (snd (main e a w))) = Info (''TOTP code for '' @ svc @ '': '' @ code))"
  using assms by (auto simp: run_defs Let_def split: option.splits)

theorem generate_on_empty_entry_witness:
  "fst (snd (main (typed []) (cmd Generate ''github'') (holding [(''github'', [])] [])))
     \<noteq> [Print ''Key not found'']
   \<and> main (typed []) (cmd Generate ''github'') (holding [(''github'', [])] [])
     = (Uncaught CalledProcessError, [], holding [(''github'', [])] [])
   \<and> fst (main (answering ''328482'') (cmd Generate ''github'') (holding [(''github'', [])] []))
     = Returned
   \<and> hd (fst (snd (main (answering ''328482'') (cmd Generate ''github'')
                      (holding [(''github'', [])] []))))
     = Info ''TOTP code for github: 328482''"
  using generate_on_empty_entry
      [of "holding [(''github'', [])] []" "''github''" "cmd Generate ''github''" "typed []"]
    generate_on_empty_entry
      [of "holding [(''github'', [])] []" "''github''" "cmd Generate ''github''"
          "answering ''328482''" "''328482''"]
  by (simp add: fixture_defs)

subsection \<open>The prompt of add and update\<close>

text \<open>
  Claim C5. An entered string that starts with \<open>otpauth://\<close> and has no \<open>secret=\<close>
  in it should be a reported failure. In the program \<open>split("secret=")\<close> then returns
  one element, \<open>[1]\<close> raises \<open>IndexError\<close>, and nothing catches it: \<open>add\<close> and
  \<open>update\<close> both end in the uncaught exception, with no message of their own and the
  keyring and the services file untouched.
\<close>

theorem uri_without_secret_crashes:
  assumes "prefix ''otpauth://'' (entered e)" and "\<not> sublist ''secret='' (entered e)"
    and "service a = Some svc" and "action a = Add \<or> action a = Update"
  shows "main e a w = (Uncaught IndexError, [], w)"
proof -
  have "after_first ''secret='' (entered e) = None"
    using assms(2) by (simp add: after_first_None_iff)
  then have "extract_secret (entered e) = Inl IndexError"
    by (rule extract_secret_missing)
  moreover have "entered e \<noteq> []"
    using assms(1) by auto
  ultimately have "read_secret e = Inl (Uncaught IndexError, [])"
    using assms(1) by (simp add: read_secret_def)
  then show ?thesis
    using assms(3,4) by (auto simp: main_def main_add_def main_update_def)
qed

theorem uri_without_secret_crashes_witness:
  "main (typed ''otpauth://totp/Example:alice?issuer=Example'') (cmd Add ''github'') (holding [] [])
     = (Uncaught IndexError, [], holding [] [])
   \<and> main (typed ''otpauth://totp/Example:alice?issuer=Example'') (cmd Update ''github'')
        (holding [(''github'', ''JBSWY3DPEHPK3PXP'')] [''github''])
     = (Uncaught IndexError, [], holding [(''github'', ''JBSWY3DPEHPK3PXP'')] [''github''])"
  using uri_without_secret_crashes
      [of "typed ''otpauth://totp/Example:alice?issuer=Example''" "cmd Add ''github''"
          "''github''" "holding [] []"]
    uri_without_secret_crashes
      [of "typed ''otpauth://totp/Example:alice?issuer=Example''" "cmd Update ''github''"
          "''github''" "holding [(''github'', ''JBSWY3DPEHPK3PXP'')] [''github'']"]
  by (simp add: typed_def cmd_def sublist_Cons_right)

subsection \<open>The service name\<close>

text \<open>
  Claim C7, as the program has it. When \<open>-s\<close> is not given, every command but
  \<open>list\<close> logs "Service name is required" and exits with status 1, and the keyring and
  the services file are as they were. The test is \<open>args.service is None\<close>: a name that
  is given and empty is not refused.
\<close>

theorem missing_service_rejected:
  assumes "service a = None" and "action a \<noteq> List_services"
  shows "main e a w = (Exit 1, [Error ''Service name is required''], w)"
  using assms by (simp add: main_def)

theorem missing_service_rejected_witness:
  "main (typed ''JBSWY3DPEHPK3PXP'') \<lparr>action = Add, service = None, copy = False, debug = False\<rparr>
        (holding [] [])
     = (Exit 1, [Error ''Service name is required''], holding [] [])"
  using missing_service_rejected
    [of "\<lparr>action = Add, service = None, copy = False, debug = False\<rparr>"
        "typed ''JBSWY3DPEHPK3PXP''" "holding [] []"]
  by simp

text \<open>
  \<open>totp add -s ""\<close> on a fresh machine: the empty name gets a keyring entry and a line
  in the services file, and the command succeeds.
\<close>

theorem empty_service_add_counterexample:
  "main (typed ''JBSWY3DPEHPK3PXP'') (cmd Add []) (holding [] [])
     = (Returned, [Info ''Key added for service ''], holding [([], ''JBSWY3DPEHPK3PXP'')] [[]])
   \<and> holding [([], ''JBSWY3DPEHPK3PXP'')] [[]] \<noteq> holding [] []"
  by (simp add: run_defs fixture_defs read_secret_def)

subsection \<open>The secret of a provisioning URI\<close>

text \<open>
  Claim C4, as the program has it. For an entered string that starts with
  \<open>otpauth://\<close> and contains \<open>secret=\<close>, let \<open>k\<close> be the substring between the
  first \<open>secret=\<close> and the next \<open>&\<close>, or the end of the string. When \<open>secret=\<close>
  does not occur again inside \<open>k\<close>, the prompt hands on exactly \<open>k\<close>, and \<open>k\<close> is what
  a successful \<open>add\<close> or \<open>update\<close> writes to the keyring: nothing else of the URI is
  stored.
\<close>

theorem uri_secret_stored:
  assumes "prefix ''otpauth://'' (entered e)" and "sublist ''secret='' (entered e)"
    and "spec_secret (entered e) = Some k" and "\<not> sublist ''secret='' k"
    and "service a = Some svc"
  shows "read_secret e = Inr k
     \<and> (action a = Add \<and> \<not> truthy (store w svc) \<longrightarrow>
          fst (main e a w) = Returned \<and> store (after (main e a w)) = (store w)(svc \<mapsto> k))
     \<and> (action a = Update \<and> store w svc \<noteq> None \<longrightarrow>
          fst (main e a w) = Returned \<and> store (after (main e a w)) = (store w)(svc \<mapsto> k))"
proof -
  have "entered e \<noteq> []"
    using assms(1) by auto
  then have rs: "read_secret e = Inr k"
    using assms(1) extract_secret_spec[OF assms(3,4)] by (simp add: read_secret_Inr_iff)
  then show ?thesis
    using assms(5) by (auto simp: run_defs Let_def)
qed

theorem uri_secret_stored_witness:
  "read_secret (typed ''otpauth://totp/Example:alice?secret=JBSWY3DPEHPK3PXP&issuer=Example'')
     = Inr ''JBSWY3DPEHPK3PXP''
   \<and> fst (main (typed ''otpauth://totp/Example:alice?secret=JBSWY3DPEHPK3PXP&issuer=Example'')
            (cmd Add ''github'') (holding [] [])) = Returned
   \<and> store (after (main (typed ''otpauth://totp/Example:alice?secret=JBSWY3DPEHPK3PXP&issuer=Example'')
            (cmd Add ''github'') (holding [] [])))
     = (store (holding [] []))(''github'' \<mapsto> ''JBSWY3DPEHPK3PXP'')
   \<and> fst (main (typed ''otpauth://totp/Example:alice?secret=JBSWY3DPEHPK3PXP&issuer=Example'')
            (cmd Update ''github'') (holding [(''github'', ''GEZDGNBVGY3TQOJQ'')] [''github'']))
     = Returned
   \<and> store (after (main (typed ''otpauth://totp/Example:alice?secret=JBSWY3DPEHPK3PXP&issuer=Example'')
            (cmd Update ''github'') (holding [(''github'', ''GEZDGNBVGY3TQOJQ'')] [''github''])))
     = (store (holding [(''github'', ''GEZDGNBVGY3TQOJQ'')] [''github'']))
         (''github'' \<mapsto> ''JBSWY3DPEHPK3PXP'')"
proof -
  let ?uri = "''otpauth://totp/Example:alice?secret=JBSWY3DPEHPK3PXP&issuer=Example''"
  have p: "prefix ''otpauth://'' (entered (typed ?uri))"
    by (simp add: typed_def)
  have c: "sublist ''secret='' (entered (typed ?uri))"
    by (simp add: typed_def sublist_Cons_right)
  have s: "spec_secret (entered (typed ?uri)) = Some ''JBSWY3DPEHPK3PXP''"
    by (simp add: typed_def spec_secret_def)
  have n: "\<not> sublist ''secret='' ''JBSWY3DPEHPK3PXP''"
    by (simp add: sublist_Cons_right)
  have a: "service (cmd Add ''github'') = Some ''github''"
    and u: "service (cmd Update ''github'') = Some ''github''"
    by (simp_all add: cmd_def)
  show ?thesis
    using uri_secret_stored[OF p c s n a, of "holding [] []"]
      uri_secret_stored[OF p c s n u, of "holding [(''github'', ''GEZDGNBVGY3TQOJQ'')] [''github'']"]
    by (simp add: cmd_def holding_def)
qed

text \<open>
  A URI whose label holds \<open>secret=\<close> too: \<open>split("secret=")[1]\<close> is the text between
  the first and the second \<open>secret=\<close>, so \<open>add\<close> stores \<open>box:alice?\<close>, which is
  neither the substring up to the next \<open>&\<close> nor the value of the query parameter.
\<close>

theorem uri_secret_stored_counterexample:
  "prefix ''otpauth://'' ''otpauth://totp/secret=box:alice?secret=JBSWY3DPEHPK3PXP&issuer=Example''
   \<and> sublist ''secret='' ''otpauth://totp/secret=box:alice?secret=JBSWY3DPEHPK3PXP&issuer=Example''
   \<and> spec_secret ''otpauth://totp/secret=box:alice?secret=JBSWY3DPEHPK3PXP&issuer=Example''
     = Some ''box:alice?secret=JBSWY3DPEHPK3PXP''
   \<and> main (typed ''otpauth://totp/secret=box:alice?secret=JBSWY3DPEHPK3PXP&issuer=Example'')
        (cmd Add ''github'') (holding [] [])
     = (Returned, [Info ''Key added for service github''],
        holding [(''github'', ''box:alice?'')] [''github''])"
proof -
  let ?uri = "''otpauth://totp/secret=box:alice?secret=JBSWY3DPEHPK3PXP&issuer=Example''"
  have "extract_secret ?uri = Inr ''box:alice?''"
    by (simp add: extract_secret_def py_split_def item_def)
  then have "read_secret (typed ?uri) = Inr ''box:alice?''"
    by (simp add: read_secret_def typed_def)
  then have "main (typed ?uri) (cmd Add ''github'') (holding [] [])
     = (Returned, [Info ''Key added for service github''],
        holding [(''github'', ''box:alice?'')] [''github''])"
    by (simp add: run_defs cmd_def holding_def)
  moreover have "spec_secret ?uri = Some ''box:alice?secret=JBSWY3DPEHPK3PXP''"
    by (simp add: spec_secret_def)
  moreover have "sublist ''secret='' ?uri"
    by (simp add: sublist_Cons_right)
  ultimately show ?thesis by simp
qed

subsection \<open>add\<close>

text \<open>
  Claim C2, as the program has it. For a service whose keyring entry holds a non-empty
  secret, \<open>add\<close> never changes the keyring or the services file and ends with status 1,
  whatever is typed at the prompt. The prompt is checked first: when what was typed
  passes it (it is not empty, and it contains \<open>secret=\<close> if it starts with
  \<open>otpauth://\<close>), the error logged is "Service already exists, use update instead".
\<close>

theorem add_on_existing_service:
  assumes "truthy (store w svc)" and "action a = Add" and "service a = Some svc"
  shows "after (main e a w) = w
     \<and> exit_status (fst (main e a w)) = 1
     \<and> (entered e \<noteq> [] \<and>
         (prefix ''otpauth://'' (entered e) \<longrightarrow> sublist ''secret='' (entered e)) \<longrightarrow>
         main e a w = (Exit 1, [Error ''Service already exists, use update instead''], w))"
proof -
  have unchanged: "after (main e a w) = w \<and> exit_status (fst (main e a w)) = 1"
  proof (cases "read_secret e")
    case (Inl r)
    obtain oc out where "r = (oc, out)" by (cases r)
    then show ?thesis
      using assms Inl read_secret_rejects[of e oc out]
      by (simp add: main_def main_add_def after_def)
  next
    case (Inr k)
    then show ?thesis
      using assms by (simp add: main_def main_add_def after_def get_key_def)
  qed
  have "main e a w = (Exit 1, [Error ''Service already exists, use update instead''], w)"
    if ne: "entered e \<noteq> []"
      and uri: "prefix ''otpauth://'' (entered e) \<longrightarrow> sublist ''secret='' (entered e)"
  proof -
    obtain k where "read_secret e = Inr k"
      using read_secret_accepts[OF ne uri] by blast
    then show ?thesis
      using assms by (simp add: main_def main_add_def get_key_def)
  qed
  with unchanged show ?thesis by blast
qed

theorem add_on_existing_service_witness:
  "after (main (typed ''GEZDGNBVGY3TQOJQ'') (cmd Add ''github'')
            (holding [(''github'', ''JBSWY3DPEHPK3PXP'')] [''github'']))
     = holding [(''github'', ''JBSWY3DPEHPK3PXP'')] [''github'']
   \<and> exit_status (fst (main (typed ''GEZDGNBVGY3TQOJQ'') (cmd Add ''github'')
            (holding [(''github'', ''JBSWY3DPEHPK3PXP'')] [''github'']))) = 1
   \<and> main (typed ''GEZDGNBVGY3TQOJQ'') (cmd Add ''github'')
        (holding [(''github'', ''JBSWY3DPEHPK3PXP'')] [''github''])
     = (Exit 1, [Error ''Service already exists, use update instead''],
        holding [(''github'', ''JBSWY3DPEHPK3PXP'')] [''github''])"
  using add_on_existing_service
    [of "holding [(''github'', ''JBSWY3DPEHPK3PXP'')] [''github'']" "''github''"
        "cmd Add ''github''" "typed ''GEZDGNBVGY3TQOJQ''"]
  by (simp add: fixture_defs after_def)

text \<open>
  Pressing Enter at the prompt of \<open>add\<close> for a service that exists: the error is the
  prompt's, not "already exists".
\<close>

theorem add_on_existing_service_counterexample:
  "truthy (store (holding [(''github'', ''JBSWY3DPEHPK3PXP'')] [''github'']) ''github'')
   \<and> main (typed []) (cmd Add ''github'') (holding [(''github'', ''JBSWY3DPEHPK3PXP'')] [''github''])
     = (Exit 1, [Error ''Secret or URL is required''],
        holding [(''github'', ''JBSWY3DPEHPK3PXP'')] [''github''])"
  by (simp add: run_defs fixture_defs read_secret_def)

subsection \<open>update\<close>

text \<open>
  Claim C3, as the program has it. For a service with no keyring entry, \<open>update\<close>
  never changes the keyring or the services file and ends with status 1, whatever is
  typed at the prompt; when what was typed passes the prompt (it is not empty, and it
  contains \<open>secret=\<close> if it starts with \<open>otpauth://\<close>), the error logged is
  "Service not found". For a service with a keyring entry and a prompt that hands on the
  secret \<open>k\<close>, \<open>update\<close> overwrites the entry with \<open>k\<close> and the name is in the
  services file afterwards, appended if it was missing.
\<close>

theorem update_precondition:
  assumes "action a = Update" and "service a = Some svc"
  shows "(store w svc = None \<longrightarrow>
            after (main e a w) = w
          \<and> exit_status (fst (main e a w)) = 1
          \<and> (entered e \<noteq> [] \<and>
              (prefix ''otpauth://'' (entered e) \<longrightarrow> sublist ''secret='' (entered e)) \<longrightarrow>
              main e a w = (Exit 1, [Error ''Service not found''], w)))
     \<and> (store w svc \<noteq> None \<and> read_secret e = Inr k \<longrightarrow>
            main e a w =
              (Returned, [Info (''Key updated for service '' @ svc)],
               w\<lparr>store := (store w)(svc \<mapsto> k),
                 index := (if svc \<in> set (index w) then index w else index w @ [svc])\<rparr>)
          \<and> store (after (main e a w)) svc = Some k
          \<and> svc \<in> set (index (after (main e a w))))"
proof -
  have unchanged: "after (main e a w) = w \<and> exit_status (fst (main e a w)) = 1"
    if "store w svc = None"
  proof (cases "read_secret e")
    case (Inl r)
    obtain oc out where "r = (oc, out)" by (cases r)
    then show ?thesis
      using assms Inl read_secret_rejects[of e oc out]
      by (simp add: main_def main_update_def after_def)
  next
    case (Inr k')
    then show ?thesis
      using assms that by (simp add: main_def main_update_def after_def get_key_def)
  qed
  have refused: "main e a w = (Exit 1, [Error ''Service not found''], w)"
    if absent: "store w svc = None" and ne: "entered e \<noteq> []"
      and uri: "prefix ''otpauth://'' (entered e) \<longrightarrow> sublist ''secret='' (entered e)"
  proof -
    obtain k' where "read_secret e = Inr k'"
      using read_secret_accepts[OF ne uri] by blast
    then show ?thesis
      using assms absent by (simp add: main_def main_update_def get_key_def)
  qed
  have written:
    "main e a w =
       (Returned, [Info (''Key updated for service '' @ svc)],
        w\<lparr>store := (store w)(svc \<mapsto> k),
          index := (if svc \<in> set (index w) then index w else index w @ [svc])\<rparr>)
     \<and> store (after (main e a w)) svc = Some k
     \<and> svc \<in> set (index (after (main e a w)))"
    if "store w svc \<noteq> None" and "read_secret e = Inr k"
    using assms that by (auto simp: run_defs)
  from unchanged refused written show ?thesis by blast
qed

theorem update_precondition_witness:
  "after (main (typed ''GEZDGNBVGY3TQOJQ'') (cmd Update ''github'') (holding [] [])) = holding [] []
   \<and> exit_status (fst (main (typed ''GEZDGNBVGY3TQOJQ'') (cmd Update ''github'') (holding [] []))) = 1
   \<and> main (typed ''GEZDGNBVGY3TQOJQ'') (cmd Update ''github'') (holding [] [])
     = (Exit 1, [Error ''Service not found''], holding [] [])
   \<and> main (typed ''GEZDGNBVGY3TQOJQ'') (cmd Update ''github'')
        (holding [(''github'', ''JBSWY3DPEHPK3PXP'')] [])
     = (Returned, [Info ''Key updated for service github''],
        holding [(''github'', ''GEZDGNBVGY3TQOJQ'')] [''github''])
   \<and> store (after (main (typed ''GEZDGNBVGY3TQOJQ'') (cmd Update ''github'')
        (holding [(''github'', ''JBSWY3DPEHPK3PXP'')] []))) ''github'' = Some ''GEZDGNBVGY3TQOJQ''
   \<and> ''github'' \<in> set (index (after (main (typed ''GEZDGNBVGY3TQOJQ'') (cmd Update ''github'')
        (holding [(''github'', ''JBSWY3DPEHPK3PXP'')] []))))"
  using update_precondition
      [of "cmd Update ''github''" "''github''" "holding [] []" "typed ''GEZDGNBVGY3TQOJQ''"]
    update_precondition
      [of "cmd Update ''github''" "''github''" "holding [(''github'', ''JBSWY3DPEHPK3PXP'')] []"
          "typed ''GEZDGNBVGY3TQOJQ''" "''GEZDGNBVGY3TQOJQ''"]
  by (simp add: fixture_defs read_secret_def after_def)

text \<open>
  Pressing Enter at the prompt of \<open>update\<close> for a service that does not exist: the
  error is the prompt's, not "Service not found".
\<close>

theorem update_precondition_counterexample:
  "store (holding [] []) ''github'' = None
   \<and> main (typed []) (cmd Update ''github'') (holding [] [])
     = (Exit 1, [Error ''Secret or URL is required''], holding [] [])"
  by (simp add: run_defs fixture_defs read_secret_def)

text \<open>
  Claim C10. For a service whose keyring entry is the empty string, as \<open>remove\<close> leaves
  it, the test \<open>key is None\<close> of \<open>update\<close> passes: with a prompt that hands on the
  secret \<open>k\<close>, \<open>update\<close> succeeds, overwrites the empty entry with \<open>k\<close>, and appends
  the name to the services file if it is missing there.
\<close>

theorem update_revives_removed:
  assumes "store w svc = Some []" and "read_secret e = Inr k"
    and "action a = Update" and "service a = Some svc"
  shows "main e a w =
           (Returned, [Info (''Key updated for service '' @ svc)],
            w\<lparr>store := (store w)(svc \<mapsto> k),
              index := (if svc \<in> set (index w) then index w else index w @ [svc])\<rparr>)"
  using assms by (auto simp: run_defs)

theorem update_revives_removed_witness:
  "main (typed ''GEZDGNBVGY3TQOJQ'') (cmd Update ''github'') (holding [(''github'', [])] [])
     = (Returned, [Info ''Key updated for service github''],
        holding [(''github'', ''GEZDGNBVGY3TQOJQ'')] [''github''])"
  using update_revives_removed
    [of "holding [(''github'', [])] []" "''github''" "typed ''GEZDGNBVGY3TQOJQ''"
        "''GEZDGNBVGY3TQOJQ''" "cmd Update ''github''"]
  by (simp add: fixture_defs read_secret_def)

subsection \<open>remove\<close>

text \<open>
  Claim C6. For a service with a keyring entry, \<open>remove\<close> succeeds, sets the entry to
  the empty string (the entry stays, it is not deleted), and removes the name from the
  services file if it is listed: \<open>list.remove\<close> takes out the first occurrence, so a
  name listed at most once is no longer listed afterwards.
\<close>

theorem remove_clears_entry:
  assumes "store w svc \<noteq> None" and "action a = Remove" and "service a = Some svc"
  shows "main e a w =
           (Returned, [Info (''Key removed for service '' @ svc)],
            w\<lparr>store := (store w)(svc \<mapsto> []), index := remove1 svc (index w)\<rparr>)
     \<and> store (after (main e a w)) svc = Some []
     \<and> (count_list (index w) svc \<le> 1 \<longrightarrow> svc \<notin> set (index (after (main e a w))))"
proof -
  have "svc \<notin> set (index w) \<Longrightarrow> remove1 svc (index w) = index w"
    by (simp add: remove1_idem)
  then have "main e a w =
           (Returned, [Info (''Key removed for service '' @ svc)],
            w\<lparr>store := (store w)(svc \<mapsto> []), index := remove1 svc (index w)\<rparr>)"
    using assms by (auto simp: run_defs Let_def)
  then show ?thesis
    by (simp add: after_def remove1_last_occurrence)
qed

theorem remove_clears_entry_witness:
  "main (typed []) (cmd Remove ''github'') (holding [(''github'', ''JBSWY3DPEHPK3PXP'')] [''github''])
     = (Returned, [Info ''Key removed for service github''],
        holding [(''github'', [])] [])
   \<and> store (after (main (typed []) (cmd Remove ''github'')
        (holding [(''github'', ''JBSWY3DPEHPK3PXP'')] [''github'']))) ''github'' = Some []
   \<and> ''github'' \<notin> set (index (after (main (typed []) (cmd Remove ''github'')
        (holding [(''github'', ''JBSWY3DPEHPK3PXP'')] [''github'']))))"
  using remove_clears_entry
    [of "holding [(''github'', ''JBSWY3DPEHPK3PXP'')] [''github'']" "''github''"
        "cmd Remove ''github''" "typed []"]
  by (simp add: cmd_def holding_def after_def)

subsection \<open>The services file\<close>

text \<open>
  Claim C8. A successful \<open>add\<close> or \<open>update\<close> appends the name to the services file
  only when it is not listed yet. So a name listed at most once before is listed exactly
  once afterwards, and a file without duplicates stays without duplicates.
\<close>

theorem index_gets_no_duplicate:
  assumes "action a = Add \<or> action a = Update" and "service a = Some svc"
    and "main e a w = (Returned, out, w')"
  shows "index w' = (if svc \<in> set (index w) then index w else index w @ [svc])
     \<and> (count_list (index w) svc \<le> 1 \<longrightarrow> count_list (index w') svc = 1)
     \<and> (distinct (index w) \<longrightarrow> distinct (index w'))"
proof -
  have "index w' = (if svc \<in> set (index w) then index w else index w @ [svc])"
    using assms
    by (auto simp: run_defs Let_def read_secret_not_Returned
          split: sum.splits if_splits prod.splits)
  then show ?thesis
    by (auto simp: count_list_append_new count_list_present)
qed

theorem index_gets_no_duplicate_witness:
  "main (typed ''JBSWY3DPEHPK3PXP'') (cmd Add ''github'') (holding [] [''gitlab''])
     = (Returned, [Info ''Key added for service github''],
        holding [(''github'', ''JBSWY3DPEHPK3PXP'')] [''gitlab'', ''github''])
   \<and> index (holding [(''github'', ''JBSWY3DPEHPK3PXP'')] [''gitlab'', ''github''])
     = [''gitlab'', ''github'']
   \<and> count_list (index (holding [(''github'', ''JBSWY3DPEHPK3PXP'')] [''gitlab'', ''github'']))
        ''github'' = 1
   \<and> distinct (index (holding [(''github'', ''JBSWY3DPEHPK3PXP'')] [''gitlab'', ''github'']))"
proof -
  have run: "main (typed ''JBSWY3DPEHPK3PXP'') (cmd Add ''github'') (holding [] [''gitlab''])
     = (Returned, [Info ''Key added for service github''],
        holding [(''github'', ''JBSWY3DPEHPK3PXP'')] [''gitlab'', ''github''])"
    by (simp add: run_defs fixture_defs read_secret_def)
  have "action (cmd Add ''github'') = Add \<or> action (cmd Add ''github'') = Update"
    and "service (cmd Add ''github'') = Some ''github''"
    by (simp_all add: cmd_def)
  from index_gets_no_duplicate[OF this run] run show ?thesis
    by (simp add: holding_def)
qed

subsection \<open>remove, then add\<close>

text \<open>
  Claim C9, as the program has it. After a successful \<open>remove\<close> of a service, an
  \<open>add\<close> for the same service with a prompt that hands on the secret \<open>k\<close> succeeds:
  the empty entry that \<open>remove\<close> left passes the test \<open>if key:\<close>, \<open>k\<close> is stored, and
  the name is appended to the services file again unless it is still listed there. It is
  appended whenever the file held the name at most once before the \<open>remove\<close>.
\<close>

theorem add_after_remove:
  assumes "store w svc \<noteq> None"
    and "action ar = Remove" and "service ar = Some svc"
    and "action aa = Add" and "service aa = Some svc"
    and "read_secret e = Inr k"
  shows "fst (main e0 ar w) = Returned
     \<and> store (after (main e0 ar w)) svc = Some []
     \<and> main e aa (after (main e0 ar w)) =
         (Returned, [Info (''Key added for service '' @ svc)],
          w\<lparr>store := (store w)(svc \<mapsto> k),
            index := (if svc \<in> set (remove1 svc (index w)) then remove1 svc (index w)
                      else remove1 svc (index w) @ [svc])\<rparr>)
     \<and> (count_list (index w) svc \<le> 1 \<longrightarrow>
          index (after (main e aa (after (main e0 ar w)))) = remove1 svc (index w) @ [svc])"
proof -
  let ?w1 = "w\<lparr>store := (store w)(svc \<mapsto> []), index := remove1 svc (index w)\<rparr>"
  have "svc \<notin> set (index w) \<Longrightarrow> remove1 svc (index w) = index w"
    by (simp add: remove1_idem)
  then have r: "main e0 ar w = (Returned, [Info (''Key removed for service '' @ svc)], ?w1)"
    using assms(1-3) by (auto simp: run_defs Let_def)
  have a: "main e aa ?w1 =
         (Returned, [Info (''Key added for service '' @ svc)],
          w\<lparr>store := (store w)(svc \<mapsto> k),
            index := (if svc \<in> set (remove1 svc (index w)) then remove1 svc (index w)
                      else remove1 svc (index w) @ [svc])\<rparr>)"
    using assms(4-6) by (simp add: run_defs Let_def)
  show ?thesis
    using r a by (simp add: after_def remove1_last_occurrence)
qed

theorem add_after_remove_witness:
  "fst (main (typed []) (cmd Remove ''github'')
          (holding [(''github'', ''JBSWY3DPEHPK3PXP'')] [''github'', ''gitlab''])) = Returned
   \<and> store (after (main (typed []) (cmd Remove ''github'')
          (holding [(''github'', ''JBSWY3DPEHPK3PXP'')] [''github'', ''gitlab'']))) ''github''
     = Some []
   \<and> main (typed ''GEZDGNBVGY3TQOJQ'') (cmd Add ''github'')
        (after (main (typed []) (cmd Remove ''github'')
          (holding [(''github'', ''JBSWY3DPEHPK3PXP'')] [''github'', ''gitlab''])))
     = (Returned, [Info ''Key added for service github''],
        holding [(''github'', ''GEZDGNBVGY3TQOJQ'')]
          [''gitlab'', ''github''])
   \<and> index (after (main (typed ''GEZDGNBVGY3TQOJQ'') (cmd Add ''github'')
        (after (main (typed []) (cmd Remove ''github'')
          (holding [(''github'', ''JBSWY3DPEHPK3PXP'')] [''github'', ''gitlab''])))))
     = [''gitlab'', ''github'']"
  using add_after_remove
    [of "holding [(''github'', ''JBSWY3DPEHPK3PXP'')] [''github'', ''gitlab'']" "''github''"
        "cmd Remove ''github''" "cmd Add ''github''" "typed ''GEZDGNBVGY3TQOJQ''"
        "''GEZDGNBVGY3TQOJQ''" "typed []"]
  by (simp add: fixture_defs read_secret_def after_def)

text \<open>
  A services file that lists the name twice: \<open>remove\<close> takes out the first occurrence,
  \<open>add\<close> finds the second one and appends nothing.
\<close>

theorem add_after_remove_counterexample:
  "main (typed []) (cmd Remove ''github'')
        (holding [(''github'', ''JBSWY3DPEHPK3PXP'')] [''github'', ''github''])
     = (Returned, [Info ''Key removed for service github''],
        holding [(''github'', [])] [''github''])
   \<and> main (typed ''GEZDGNBVGY3TQOJQ'') (cmd Add ''github'')
        (holding [(''github'', [])] [''github''])
     = (Returned, [Info ''Key added for service github''],
        holding [(''github'', ''GEZDGNBVGY3TQOJQ'')] [''github''])"
  by (simp add: run_defs fixture_defs read_secret_def)

end
